theory Spec2Isabelle
  imports Complex_Main "HOL-Library.Char_ord" "HOL-Library.List_Lexorder" "HOL-Library.Multiset"
begin

section \<open>Python values and string operations\<close>

text \<open>
  The rules engine reads its input from dictionaries of JSON values. A value is one of
  the JSON shapes, an \<open>int\<close> being unbounded and a \<open>float\<close> finite.  Floats are
  modelled as exact rationals: binary rounding error is not represented, and neither are
  \<open>inf\<close> and \<open>nan\<close>.  Strings are ASCII text: \<open>lower\<close> maps
  \<open>A..Z\<close> to \<open>a..z\<close> and the white space of \<open>strip\<close>, \<open>\s\<close> and
  \<open>splitlines\<close> is the ASCII white space of Python's \<open>str\<close>.
\<close>

datatype pyval =
    PNone
  | PBool bool
  | PInt int
  | PFloat rat
  | PStr string
  | PList "pyval list"
  | PDict "(string \<times> pyval) list"

text \<open>
  A computation ends with a value (\<open>Inr\<close>), with an exception of the code
  (\<open>Inl (Raises e)\<close>), or where \<open>float\<close> produces \<open>inf\<close> or \<open>nan\<close>
  (\<open>Inl NonFinite\<close>): there the code goes on with a value that the rationals do not
  have, and the model says nothing about what it returns.
\<close>

datatype error = ValueError | TypeError | AttributeError | OverflowError

datatype halt = Raises error | NonFinite

text \<open>Truth value of an object, as \<open>bool(v)\<close>, \<open>not v\<close> and \<open>v or d\<close> test it.\<close>

fun truthy :: "pyval \<Rightarrow> bool" where
  "truthy PNone = False"
| "truthy (PBool b) = b"
| "truthy (PInt n) = (n \<noteq> 0)"
| "truthy (PFloat r) = (r \<noteq> 0)"
| "truthy (PStr s) = (s \<noteq> [])"
| "truthy (PList xs) = (xs \<noteq> [])"
| "truthy (PDict kvs) = (kvs \<noteq> [])"

text \<open>\<open>v or d\<close>\<close>

definition py_or :: "pyval \<Rightarrow> pyval \<Rightarrow> pyval" where
  "py_or v d = (if truthy v then v else d)"

text \<open>\<open>c.get(k, d)\<close> on a looked-up entry: \<open>None\<close> is the absent key.\<close>

definition get_default :: "pyval option \<Rightarrow> pyval \<Rightarrow> pyval" where
  "get_default e d = (case e of None \<Rightarrow> d | Some v \<Rightarrow> v)"

definition lower_char :: "char \<Rightarrow> char" where
  "lower_char c =
     (let n = (of_char c :: nat) in if 65 \<le> n \<and> n \<le> 90 then char_of (n + 32) else c)"

definition lower :: "string \<Rightarrow> string" where
  "lower s = map lower_char s"

definition is_space :: "char \<Rightarrow> bool" where
  "is_space c = ((of_char c :: nat) \<in> {9, 10, 11, 12, 13, 28, 29, 30, 31, 32})"

definition strip :: "string \<Rightarrow> string" where
  "strip s = rev (dropWhile is_space (rev (dropWhile is_space s)))"

definition is_digit :: "char \<Rightarrow> bool" where
  "is_digit c = (let n = (of_char c :: nat) in 48 \<le> n \<and> n \<le> 57)"

definition digit_val :: "char \<Rightarrow> nat" where
  "digit_val c = (of_char c :: nat) - 48"

text \<open>\<open>s.startswith(k)\<close> and the substring test \<open>k in s\<close>.\<close>

fun starts_with :: "string \<Rightarrow> string \<Rightarrow> bool" where
  "starts_with s [] = True"
| "starts_with [] (k # ks) = False"
| "starts_with (c # cs) (k # ks) = (c = k \<and> starts_with cs ks)"

fun py_in :: "string \<Rightarrow> string \<Rightarrow> bool" where
  "py_in k [] = (k = [])"
| "py_in k (c # cs) = (starts_with (c # cs) k \<or> py_in k cs)"

text \<open>\<open>any(k in s for k in needles)\<close>\<close>

definition any_in :: "string list \<Rightarrow> string \<Rightarrow> bool" where
  "any_in needles s = list_ex (\<lambda>k. py_in k s) needles"

subsection \<open>\<open>float(...)\<close> and \<open>round(x, 2)\<close>\<close>

text \<open>
  \<open>float\<close> of an ASCII string removes the white space of C (space and
  \<open>\t \n \v \f \r\<close>, not the separators \<open>\x1c\<close> to \<open>\x1f\<close> that
  \<open>str.strip\<close> removes) at both ends and then accepts an optional sign followed
  by a decimal number with optional fraction and exponent, digits possibly grouped by
  single underscores, or by one of \<open>inf\<close>, \<open>infinity\<close> and \<open>nan\<close> in any
  case.  On anything else it raises \<open>ValueError\<close>.
\<close>

definition is_float_space :: "char \<Rightarrow> bool" where
  "is_float_space c = ((of_char c :: nat) \<in> {9, 10, 11, 12, 13, 32})"

definition float_strip :: "string \<Rightarrow> string" where
  "float_strip s = rev (dropWhile is_float_space (rev (dropWhile is_float_space s)))"

text \<open>A digit part \<open>digit (["_"] digit)*\<close>: its digits and what follows it.\<close>

fun digit_rest :: "string \<Rightarrow> string \<times> string" where
  "digit_rest (c # d # cs) =
     (if is_digit c then (let (ds, r) = digit_rest (d # cs) in (c # ds, r))
      else if c = CHR ''_'' \<and> is_digit d then digit_rest (d # cs)
      else ([], c # d # cs))"
| "digit_rest [c] = (if is_digit c then ([c], []) else ([], [c]))"
| "digit_rest [] = ([], [])"

definition digit_part :: "string \<Rightarrow> (string \<times> string) option" where
  "digit_part s =
     (case s of [] \<Rightarrow> None
      | c # cs \<Rightarrow> if is_digit c then Some (digit_rest s) else None)"

definition nat_of_digits :: "string \<Rightarrow> nat" where
  "nat_of_digits ds = foldl (\<lambda>n c. 10 * n + digit_val c) 0 ds"

definition sign_part :: "string \<Rightarrow> rat \<times> string" where
  "sign_part s =
     (case s of [] \<Rightarrow> (1, [])
      | c # cs \<Rightarrow> if c = CHR ''-'' then (- 1, cs) else if c = CHR ''+'' then (1, cs) else (1, s))"

text \<open>The mantissa: \<open>digits [. [digits]]\<close> or \<open>. digits\<close>.\<close>

definition mantissa :: "string \<Rightarrow> (rat \<times> string) option" where
  "mantissa s =
     (case digit_part s of
        Some (ip, r) \<Rightarrow>
          (case r of
             c # r' \<Rightarrow>
               if c = CHR ''.'' then
                 (case digit_part r' of
                    Some (fp, r'') \<Rightarrow>
                      Some (of_nat (nat_of_digits ip) + of_nat (nat_of_digits fp) / 10 ^ length fp, r'')
                  | None \<Rightarrow> Some (of_nat (nat_of_digits ip), r'))
               else Some (of_nat (nat_of_digits ip), r)
           | [] \<Rightarrow> Some (of_nat (nat_of_digits ip), []))
      | None \<Rightarrow>
          (case s of
             c # r' \<Rightarrow>
               if c = CHR ''.'' then
                 (case digit_part r' of
                    Some (fp, r'') \<Rightarrow> Some (of_nat (nat_of_digits fp) / 10 ^ length fp, r'')
                  | None \<Rightarrow> None)
               else None
           | [] \<Rightarrow> None))"

text \<open>The exponent \<open>(e|E) [sign] digits\<close>, as the factor it stands for.\<close>

definition exponent :: "string \<Rightarrow> (rat \<times> string) option" where
  "exponent s =
     (case s of [] \<Rightarrow> Some (1, [])
      | c # cs \<Rightarrow>
          if c = CHR ''e'' \<or> c = CHR ''E'' then
            (let (sg, r) = sign_part cs in
             case digit_part r of
               Some (ds, r') \<Rightarrow>
                 Some (if sg < 0 then 1 / 10 ^ nat_of_digits ds else 10 ^ nat_of_digits ds, r')
             | None \<Rightarrow> None)
          else Some (1, s))"

text \<open>What a string that \<open>float\<close> accepts denotes.\<close>

datatype literal = Number rat | InfOrNan

definition float_of_string :: "string \<Rightarrow> literal option" where
  "float_of_string s =
     (let (sg, r) = sign_part (float_strip s) in
      if lower r \<in> set [''inf'', ''infinity'', ''nan''] then Some InfOrNan
      else
        case mantissa r of
          None \<Rightarrow> None
        | Some (m, r') \<Rightarrow>
            (case exponent r' of
               Some (e, []) \<Rightarrow> Some (Number (sg * m * e))
             | _ \<Rightarrow> None))"

text \<open>
  A number is in the range of the finite doubles when rounding it to the nearest double
  does not overflow: when its magnitude is below \<open>2^1024 - 2^970\<close>, half way between
  the largest double and \<open>2^1024\<close>.  \<open>float\<close> of a larger \<open>int\<close> raises
  \<open>OverflowError\<close>, \<open>float\<close> of a larger decimal string is \<open>inf\<close>.
\<close>

definition DBL_OVERFLOW :: int where
  "DBL_OVERFLOW = 2 ^ 1024 - 2 ^ 970"

definition in_double_range :: "rat \<Rightarrow> bool" where
  "in_double_range r = (\<bar>r\<bar> < of_int DBL_OVERFLOW)"

text \<open>\<open>float(v)\<close>\<close>

fun py_float :: "pyval \<Rightarrow> halt + rat" where
  "py_float (PFloat r) = Inr r"
| "py_float (PInt n) = (if in_double_range (of_int n) then Inr (of_int n) else Inl (Raises OverflowError))"
| "py_float (PBool b) = Inr (if b then 1 else 0)"
| "py_float (PStr s) =
     (case float_of_string s of
        Some (Number r) \<Rightarrow> if in_double_range r then Inr r else Inl NonFinite
      | Some InfOrNan \<Rightarrow> Inl NonFinite
      | None \<Rightarrow> Inl (Raises ValueError))"
| "py_float PNone = Inl (Raises TypeError)"
| "py_float (PList xs) = Inl (Raises TypeError)"
| "py_float (PDict kvs) = Inl (Raises TypeError)"

text \<open>
  \<open>round(x, 2)\<close>: the nearest multiple of 1/100, a tie going to the even one.
\<close>

definition round_half_even :: "rat \<Rightarrow> int" where
  "round_half_even x =
     (let f = \<lfloor>x\<rfloor>; d = x - of_int f in
      if d < 1 / 2 then f else if 1 / 2 < d then f + 1 else if even f then f else f + 1)"

definition round2 :: "rat \<Rightarrow> rat" where
  "round2 x = of_int (round_half_even (x * 100)) / 100"

section \<open>Documents gate (\<open>app/utils/rules.py\<close>, \<open>app/services/ledger_review.py\<close>)\<close>

definition REQ_DOCS :: "string list" where
  "REQ_DOCS = [''lease_addendum'', ''lease_agreement'', ''notification_to_tenant'', ''tenant_ledger'']"

definition REQUIRED_FILES :: "string list" where
  "REQUIRED_FILES = [''lease_addendum'', ''lease_agreement'', ''notification_to_tenant'', ''tenant_ledger'']"

text \<open>\<open>REQ_DOCS = REQUIRED_FILES  # alias\<close> in \<open>ledger_review.py\<close>.\<close>

definition REQ_DOCS_ledger_review :: "string list" where
  "REQ_DOCS_ledger_review = REQUIRED_FILES"

record gate_details =
  First_Month_Paid :: bool
  First_Month_Paid_Evidence :: pyval
  First_Month_SDI_Premium_Paid :: bool
  First_Month_SDI_Premium_Paid_Evidence :: pyval
  Missing_documents :: "string list"
  Status :: string

text \<open>
  Both dictionaries are maps from keys to values; \<open>documents_present\<close> is declared
  \<open>Dict[str, bool]\<close>, \<open>ledger\<close> is \<open>Dict[str, Any]\<close>.
\<close>

definition validate_gate ::
  "(string \<rightharpoonup> bool) \<Rightarrow> (string \<rightharpoonup> pyval) \<Rightarrow> bool \<times> gate_details" where
  "validate_gate documents_present ledger =
     (let missing = sort (filter (\<lambda>d. \<not> (case documents_present d of None \<Rightarrow> False | Some b \<Rightarrow> b)) REQ_DOCS);
          first_rent = truthy (get_default (ledger ''first_month_rent_paid'') (PBool False));
          first_sdi = truthy (get_default (ledger ''first_month_sdi_premium_paid'') (PBool False));
          approved = (length missing = 0 \<and> first_rent \<and> first_sdi)
      in (approved,
          \<lparr> First_Month_Paid = first_rent,
            First_Month_Paid_Evidence = get_default (ledger ''first_month_rent_evidence'') (PStr ''''),
            First_Month_SDI_Premium_Paid = first_sdi,
            First_Month_SDI_Premium_Paid_Evidence =
              get_default (ledger ''first_month_sdi_premium_paid_evidence'') (PStr ''''),
            Missing_documents = missing,
            Status = (if approved then ''Approved'' else ''Declined'') \<rparr>))"

definition validate_gate_ledger_review ::
  "(string \<rightharpoonup> bool) \<Rightarrow> (string \<rightharpoonup> pyval) \<Rightarrow> bool \<times> gate_details" where
  "validate_gate_ledger_review documents_present ledger =
     (let missing = sort (filter (\<lambda>d. \<not> (case documents_present d of None \<Rightarrow> False | Some b \<Rightarrow> b))
                            REQ_DOCS_ledger_review);
          first_rent = truthy (get_default (ledger ''first_month_rent_paid'') (PBool False));
          first_sdi = truthy (get_default (ledger ''first_month_sdi_premium_paid'') (PBool False));
          approved = (length missing = 0 \<and> first_rent \<and> first_sdi)
      in (approved,
          \<lparr> First_Month_Paid = first_rent,
            First_Month_Paid_Evidence = get_default (ledger ''first_month_rent_evidence'') (PStr ''''),
            First_Month_SDI_Premium_Paid = first_sdi,
            First_Month_SDI_Premium_Paid_Evidence =
              get_default (ledger ''first_month_sdi_premium_paid_evidence'') (PStr ''''),
            Missing_documents = missing,
            Status = (if approved then ''Approved'' else ''Declined'') \<rparr>))"

section \<open>Payout (\<open>finalize_payout\<close>)\<close>


section \<open>Policy rules (\<open>apply_policy_rules\<close>)\<close>

text \<open>
  A charge is a dictionary read with \<open>c.get\<close>.  The text entries hold a \<open>str\<close> or
  \<open>None\<close> when present, as the docstring of \<open>apply_policy_rules\<close> and the
  \<open>ChargeItem\<close> schema declare them; \<open>amount\<close> and the two flags hold any value.
  Other keys are ignored by the rules.
\<close>

datatype text_field = Missing | Null | Text string

record charge =
  category :: text_field
  description :: text_field
  amount :: "pyval option"
  status :: text_field
  wear :: text_field
  accelerated_moveout :: "pyval option"
  linked_to_occupancy :: "pyval option"

text \<open>
  The first component of an output tuple: a description as it was read (\<open>None\<close> or a
  string), or the f-string \<open>f"{prefix} \<dots> {desc}"\<close>, kept as its two parts.
\<close>

datatype label = NoneLabel | Plain string | Dashed string string

type_synonym item = "label \<times> rat \<times> string"

record state =
  approved :: "item list"
  excluded :: "item list"
  landscaping_used :: rat
  rent_used :: rat

definition DAMAGE_HINTS :: "string list" where
  "DAMAGE_HINTS = [''stain'', ''hole'', ''burn'', ''tear'', ''ripple'', ''gouge'', ''scratch'', ''soiled'',
     ''excessive'', ''ruin'', ''broken'', ''damage'', ''beyond wear'', ''heavy odor'', ''pet urine'']"

definition UTIL_SYNONYMS :: "string list" where
  "UTIL_SYNONYMS = [''utility'', ''utilities'', ''water'', ''sewer'', ''gas'', ''electric'', ''power'']"

definition REKEY_SYNONYMS :: "string list" where
  "REKEY_SYNONYMS = [''rekey'', ''locksmith'', ''lock change'', ''change locks'']"

definition LANDSCAPE_SYNONYMS :: "string list" where
  "LANDSCAPE_SYNONYMS = [''landscaping'', ''lawn'', ''yard'', ''grounds'']"

definition looks_beyond_wear :: "string \<Rightarrow> bool" where
  "looks_beyond_wear desc = any_in DAMAGE_HINTS (lower desc)"

definition is_util :: "string \<Rightarrow> string \<Rightarrow> bool" where
  "is_util cat desc = any_in UTIL_SYNONYMS (lower (cat @ '' '' @ desc))"

definition is_rekey :: "string \<Rightarrow> string \<Rightarrow> bool" where
  "is_rekey cat desc = any_in REKEY_SYNONYMS (lower (cat @ '' '' @ desc))"

definition is_landscape :: "string \<Rightarrow> string \<Rightarrow> bool" where
  "is_landscape cat desc = any_in LANDSCAPE_SYNONYMS (lower (cat @ '' '' @ desc))"

text \<open>\<open>c.get(k) or ""\<close> on a text entry.\<close>

definition text_or_empty :: "text_field \<Rightarrow> string" where
  "text_or_empty t = (case t of Text s \<Rightarrow> s | _ \<Rightarrow> [])"

text \<open>\<open>c.get("status", "").lower() in ("unpaid", "overdue")\<close>: \<open>None\<close> has no \<open>lower\<close>.\<close>

definition include_only_unpaid :: "charge \<Rightarrow> halt + bool" where
  "include_only_unpaid c =
     (case status c of
        Missing \<Rightarrow> Inr (lower [] \<in> set [''unpaid'', ''overdue''])
      | Null \<Rightarrow> Inl (Raises AttributeError)
      | Text s \<Rightarrow> Inr (lower s \<in> set [''unpaid'', ''overdue'']))"

text \<open>\<open>float(c.get("amount", 0) or 0)\<close>\<close>

definition amount_of :: "charge \<Rightarrow> halt + rat" where
  "amount_of c = py_float (py_or (get_default (amount c) (PInt 0)) (PInt 0))"

text \<open>\<open>c.get("description", "")\<close>, the label of a charge that is not unpaid.\<close>

definition description_label :: "charge \<Rightarrow> label" where
  "description_label c =
     (case description c of Missing \<Rightarrow> Plain [] | Null \<Rightarrow> NoneLabel | Text s \<Rightarrow> Plain s)"

text \<open>\<open>bool(c.get(k, False))\<close>\<close>

definition flag :: "pyval option \<Rightarrow> bool" where
  "flag e = truthy (get_default e (PBool False))"

definition approve :: "state \<Rightarrow> item \<Rightarrow> state" where
  "approve st a = st\<lparr>approved := approved st @ [a]\<rparr>"

definition exclude :: "state \<Rightarrow> item \<Rightarrow> state" where
  "exclude st e = st\<lparr>excluded := excluded st @ [e]\<rparr>"

text \<open>The block \<open>Normalize categories by synonyms / description\<close>.\<close>

definition normalize_category :: "string \<Rightarrow> string \<Rightarrow> string" where
  "normalize_category cat desc =
     (if is_rekey cat desc then ''rekey''
      else if is_landscape cat desc then ''landscaping''
      else if is_util cat desc then ''unpaid_utilities''
      else cat)"

text \<open>The category dispatch, from \<open># ---- Inclusions & caps ----\<close> to the end of the loop body.\<close>

definition dispatch :: "rat \<Rightarrow> state \<Rightarrow> charge \<Rightarrow> string \<Rightarrow> string \<Rightarrow> rat \<Rightarrow> string \<Rightarrow> state" where
  "dispatch monthly_rent st c cat desc amt wr =
     (if cat = ''cleaning'' then
        (if wr = ''beyond'' \<or> (wr = [] \<and> looks_beyond_wear desc)
         then approve st (Dashed ''Cleaning'' desc, amt, ''Beyond normal wear and tear'')
         else exclude st (Plain desc, amt, ''Unspecified/normal wear''))
      else if cat = ''rekey'' then
        approve st (Dashed ''Rekey'' desc, amt, ''Move-out rekey'')
      else if cat = ''landscaping'' then
        (let cap = max 0 (min amt (500 - landscaping_used st)) in
         if 0 < cap then
           (let st1 = approve st (Dashed ''Landscaping'' desc, cap, ''Capped at $500'');
                st2 = (if cap < amt then exclude st1 (Plain desc, amt - cap, ''Over $500 cap'') else st1)
            in st2\<lparr>landscaping_used := landscaping_used st2 + cap\<rparr>)
         else exclude st (Plain desc, amt, ''Over $500 cap''))
      else if cat \<in> set [''utilities'', ''unpaid_utilities''] then
        approve st (Dashed ''Unpaid Utilities'' desc, amt, ''Covered'')
      else if cat = ''unpaid_rent'' then
        (let cap = max 0 (min amt (monthly_rent - rent_used st)) in
         if 0 < cap then
           (let st1 = approve st (Dashed ''Unpaid Rent'' desc, cap, ''Capped at one month rent'');
                st2 = (if cap < amt then exclude st1 (Plain desc, amt - cap, ''Over one month rent'') else st1)
            in st2\<lparr>rent_used := rent_used st2 + cap\<rparr>)
         else exclude st (Plain desc, amt, ''Over one month rent''))
      else if cat \<in> set [''lease_break'', ''relisting_fee'', ''lease_break_fee''] then
        (let accelerated = flag (accelerated_moveout c) in
         if accelerated then
           approve st (Dashed ''Lease Break Fee (Accelerated)'' desc, amt, ''Exception: accelerated move-out'')
         else
           (let cap = min amt monthly_rent;
                st1 = approve st (Dashed ''Lease Break Fee'' desc, cap, ''Capped at one month rent'')
            in if cap < amt then exclude st1 (Plain desc, amt - cap, ''Over one month rent'') else st1))
      else if cat = ''prorated_rent'' then
        (let linked = flag (linked_to_occupancy c) in
         if linked then
           approve st (Dashed ''Prorated Rent'' desc, amt, ''Linked to occupancy/lease obligations'')
         else exclude st (Plain desc, amt, ''Exclude unless clearly linked''))
      else exclude st (Plain desc, amt, ''Unknown category (exclude)''))"

text \<open>One iteration of \<open>for c in charges\<close>.\<close>

definition process_charge :: "rat \<Rightarrow> state \<Rightarrow> charge \<Rightarrow> halt + state" where
  "process_charge monthly_rent st c =
     (case include_only_unpaid c of
        Inl e \<Rightarrow> Inl e
      | Inr unpaid \<Rightarrow>
          if \<not> unpaid then
            (case amount_of c of
               Inl e \<Rightarrow> Inl e
             | Inr amt \<Rightarrow> Inr (exclude st (description_label c, amt, ''Paid/Not overdue'')))
          else
            (let cat = strip (lower (text_or_empty (category c)));
                 desc = text_or_empty (description c)
             in case amount_of c of
                  Inl e \<Rightarrow> Inl e
                | Inr amt \<Rightarrow>
                    (let wr = strip (lower (text_or_empty (wear c))) in
                     if cat \<in> set [''non_refundable_fee'', ''benefit_program'', ''pet_damage'', ''lawn_vacant'']
                     then Inr (exclude st (Plain desc, amt, ''Policy exclusion''))
                     else if cat \<in> set [''cleaning'', ''normal_wear''] \<and> wr = ''normal''
                     then Inr (exclude st (Plain desc, amt, ''Normal wear and tear''))
                     else Inr (dispatch monthly_rent st c (normalize_category cat desc) desc amt wr))))"

fun run_charges :: "rat \<Rightarrow> state \<Rightarrow> charge list \<Rightarrow> halt + state" where
  "run_charges monthly_rent st [] = Inr st"
| "run_charges monthly_rent st (c # cs) =
     (case process_charge monthly_rent st c of
        Inl e \<Rightarrow> Inl e
      | Inr st' \<Rightarrow> run_charges monthly_rent st' cs)"

definition initial_state :: state where
  "initial_state = \<lparr>approved = [], excluded = [], landscaping_used = 0, rent_used = 0\<rparr>"

definition amounts :: "item list \<Rightarrow> rat list" where
  "amounts xs = map (\<lambda>a. fst (snd a)) xs"

definition apply_policy_rules :: "charge list \<Rightarrow> rat \<Rightarrow> halt + (item list \<times> item list \<times> rat)" where
  "apply_policy_rules charges monthly_rent =
     (case run_charges monthly_rent initial_state charges of
        Inl e \<Rightarrow> Inl e
      | Inr st \<Rightarrow> Inr (approved st, excluded st, round2 (sum_list (amounts (approved st)))))"

section \<open>Ledger evidence (\<open>extract_ledger_flags\<close>)\<close>

definition RENT_HINTS :: "string list" where
  "RENT_HINTS = [''rent'', ''base rent'', ''monthly rent'', ''1st month rent'', ''first month rent'']"

definition SDI_HINTS :: "string list" where
  "SDI_HINTS = [''sdi'', ''security deposit insurance'', ''deposit insurance premium'', ''sdi premium'']"

definition PAID_HINTS :: "string list" where
  "PAID_HINTS = [''paid'', ''received'', ''collected'', ''posted'', ''credit'']"

subsection \<open>The pattern \<open>_MONEY\<close>\<close>

text \<open>
  \<open>\$?\s?\d{1,3}(?:,\d{3})*(?:\.\d{2})?\<close>, matched as the backtracking matcher does:
  an optional item tries its character first and the empty match second; the greedy
  digit run, comma groups and cents never give anything back, since whatever follows
  them can match the empty string.
\<close>

text \<open>The ways to match \<open>x?\<close>, in the order tried: what is left of the input.\<close>

definition optional_char :: "(char \<Rightarrow> bool) \<Rightarrow> string \<Rightarrow> string list" where
  "optional_char p s = (case s of c # cs \<Rightarrow> if p c then [cs, s] else [s] | [] \<Rightarrow> [s])"

text \<open>\<open>(?:,\d{3})*\<close>: what is left after the groups.\<close>

fun comma_groups :: "string \<Rightarrow> string" where
  "comma_groups (a # b # c # d # cs) =
     (if a = CHR '','' \<and> is_digit b \<and> is_digit c \<and> is_digit d then comma_groups cs
      else a # b # c # d # cs)"
| "comma_groups s = s"

text \<open>\<open>(?:\.\d{2})?\<close>\<close>

definition cents :: "string \<Rightarrow> string" where
  "cents s =
     (case s of
        a # b # c # cs \<Rightarrow> if a = CHR ''.'' \<and> is_digit b \<and> is_digit c then cs else s
      | _ \<Rightarrow> s)"

text \<open>\<open>\d{1,3}(?:,\d{3})*(?:\.\d{2})?\<close>: what is left after it, if it matches.\<close>

definition money_number :: "string \<Rightarrow> string option" where
  "money_number s =
     (let ds = takeWhile is_digit (take 3 s) in
      if ds = [] then None else Some (cents (comma_groups (drop (length ds) s))))"

text \<open>The whole pattern at the start of \<open>s\<close>: the text it matches.\<close>

definition money_match :: "string \<Rightarrow> string option" where
  "money_match s =
     (case List.map_filter money_number
             (concat (map (optional_char is_space) (optional_char (\<lambda>c. c = CHR ''$'') s))) of
        [] \<Rightarrow> None
      | r # _ \<Rightarrow> Some (take (length s - length r) s))"

text \<open>\<open>_MONEY.search(line)\<close> and \<open>m.group(0) if m else None\<close>: the leftmost match.\<close>

fun search_money :: "string \<Rightarrow> string option" where
  "search_money [] = money_match []"
| "search_money (c # cs) =
     (case money_match (c # cs) of Some m \<Rightarrow> Some m | None \<Rightarrow> search_money cs)"

text \<open>\<open>bool(_search_money(line))\<close>\<close>

definition has_money :: "string \<Rightarrow> bool" where
  "has_money line = (case search_money line of None \<Rightarrow> False | Some m \<Rightarrow> m \<noteq> [])"

subsection \<open>Lines and normalisation\<close>

definition is_linebreak :: "char \<Rightarrow> bool" where
  "is_linebreak c = ((of_char c :: nat) \<in> {10, 11, 12, 13, 28, 29, 30})"

text \<open>
  \<open>text.splitlines()\<close>; \<open>cur\<close> is the line being read, reversed.  A carriage return
  followed by a line feed is one boundary, and no empty line follows the last boundary.
\<close>

fun splitlines_from :: "string \<Rightarrow> string \<Rightarrow> string list" where
  "splitlines_from cur (c # d # cs) =
     (if c = CHR 0x0D \<and> d = CHR 0x0A then rev cur # splitlines_from [] cs
      else if is_linebreak c then rev cur # splitlines_from [] (d # cs)
      else splitlines_from (c # cur) (d # cs))"
| "splitlines_from cur [c] = (if is_linebreak c then [rev cur] else [rev (c # cur)])"
| "splitlines_from cur [] = (if cur = [] then [] else [rev cur])"

definition splitlines :: "string \<Rightarrow> string list" where
  "splitlines s = splitlines_from [] s"

text \<open>\<open>re.sub(r"\s+", " ", s)\<close>; \<open>in_ws\<close> says that the run of white space has begun.\<close>

fun collapse_ws :: "bool \<Rightarrow> string \<Rightarrow> string" where
  "collapse_ws in_ws [] = []"
| "collapse_ws in_ws (c # cs) =
     (if is_space c then (if in_ws then collapse_ws True cs else CHR '' '' # collapse_ws True cs)
      else c # collapse_ws False cs)"

definition normalize_text :: "string \<Rightarrow> string" where
  "normalize_text s = strip (collapse_ws False s)"

definition line_matches :: "string \<Rightarrow> string list \<Rightarrow> bool" where
  "line_matches line needles = any_in needles (lower line)"

subsection \<open>The scan\<close>

record scan =
  rent_paid :: bool
  rent_ev :: string
  sdi_paid :: bool
  sdi_ev :: string

record ledger_flags =
  first_month_rent_paid :: bool
  first_month_rent_evidence :: string
  first_month_sdi_premium_paid :: bool
  first_month_sdi_premium_paid_evidence :: string

text \<open>The first loop, with its \<open>break\<close>.\<close>

fun strict_scan :: "scan \<Rightarrow> string list \<Rightarrow> scan" where
  "strict_scan st [] = st"
| "strict_scan st (line # rest) =
     (let money = has_money line;
          paid_mention = line_matches line PAID_HINTS;
          st1 = (if \<not> rent_paid st \<and> line_matches line RENT_HINTS \<and> (money \<or> paid_mention)
                 then st\<lparr>rent_paid := True, rent_ev := normalize_text line\<rparr> else st);
          st2 = (if \<not> sdi_paid st1 \<and> line_matches line SDI_HINTS \<and> (money \<or> paid_mention)
                 then st1\<lparr>sdi_paid := True, sdi_ev := normalize_text line\<rparr> else st1)
      in if rent_paid st2 \<and> sdi_paid st2 then st2 else strict_scan st2 rest)"

text \<open>
  The two fallback loops: the first line with a hint sets the flag and the evidence, and
  the loop ends there.
\<close>

fun rent_fallback :: "scan \<Rightarrow> string list \<Rightarrow> scan" where
  "rent_fallback st [] = st"
| "rent_fallback st (line # rest) =
     (if line_matches line RENT_HINTS then st\<lparr>rent_paid := True, rent_ev := normalize_text line\<rparr>
      else rent_fallback st rest)"

fun sdi_fallback :: "scan \<Rightarrow> string list \<Rightarrow> scan" where
  "sdi_fallback st [] = st"
| "sdi_fallback st (line # rest) =
     (if line_matches line SDI_HINTS then st\<lparr>sdi_paid := True, sdi_ev := normalize_text line\<rparr>
      else sdi_fallback st rest)"

text \<open>\<open>[l.strip() for l in text.splitlines() if l.strip()]\<close>\<close>

definition ledger_lines :: "string \<Rightarrow> string list" where
  "ledger_lines text = map strip (filter (\<lambda>l. strip l \<noteq> []) (splitlines text))"

definition extract_ledger_flags :: "string \<Rightarrow> ledger_flags" where
  "extract_ledger_flags ledger_text =
     (let lines = ledger_lines ledger_text;
          st0 = \<lparr>rent_paid = False, rent_ev = [], sdi_paid = False, sdi_ev = []\<rparr>;
          st1 = strict_scan st0 lines;
          st2 = (if \<not> rent_paid st1 then rent_fallback st1 lines else st1);
          st3 = (if \<not> sdi_paid st2 then sdi_fallback st2 lines else st2)
      in \<lparr>first_month_rent_paid = rent_paid st3,
          first_month_rent_evidence = rent_ev st3,
          first_month_sdi_premium_paid = sdi_paid st3,
          first_month_sdi_premium_paid_evidence = sdi_ev st3\<rparr>)"

subsection \<open>The scan as the specification words it\<close>

text \<open>
  Phase 1 takes the first line that has a hint together with a currency-shaped token or a
  payment word; phase 2, for what phase 1 did not find, the first line that has a hint.
\<close>

definition corroborated :: "string list \<Rightarrow> string \<Rightarrow> bool" where
  "corroborated hints line =
     (line_matches line hints \<and> (has_money line \<or> line_matches line PAID_HINTS))"

definition spec_evidence :: "string list \<Rightarrow> string list \<Rightarrow> bool \<times> string" where
  "spec_evidence hints lines =
     (case find (corroborated hints) lines of
        Some l \<Rightarrow> (True, normalize_text l)
      | None \<Rightarrow>
          (case find (\<lambda>l. line_matches l hints) lines of
             Some l \<Rightarrow> (True, normalize_text l)
           | None \<Rightarrow> (False, [])))"

section \<open>Notions used in the statements\<close>

text \<open>
  The values the loop body binds to \<open>cat\<close>, \<open>desc\<close> and \<open>wear\<close> before the
  exclusions, and the amount it binds to \<open>amt\<close> (0 where \<open>float\<close> raises).
\<close>

abbreviation cat_of :: "charge \<Rightarrow> string" where
  "cat_of c \<equiv> strip (lower (text_or_empty (category c)))"

abbreviation desc_of :: "charge \<Rightarrow> string" where
  "desc_of c \<equiv> text_or_empty (description c)"

abbreviation wear_of :: "charge \<Rightarrow> string" where
  "wear_of c \<equiv> strip (lower (text_or_empty (wear c)))"

definition coerced_amount :: "charge \<Rightarrow> rat" where
  "coerced_amount c = (case amount_of c of Inr a \<Rightarrow> a | Inl e \<Rightarrow> 0)"

text \<open>A charge that one of the two exclusions before the normalisation catches.\<close>

definition excluded_before_normalization :: "charge \<Rightarrow> bool" where
  "excluded_before_normalization c =
     (cat_of c \<in> set [''non_refundable_fee'', ''benefit_program'', ''pet_damage'', ''lawn_vacant'']
      \<or> (cat_of c \<in> set [''cleaning'', ''normal_wear''] \<and> wear_of c = ''normal''))"


text \<open>The tuples that the unpaid-rent branch approved.\<close>

definition rent_items :: "item list \<Rightarrow> item list" where
  "rent_items xs = filter (\<lambda>x. case fst x of Dashed p d \<Rightarrow> p = ''Unpaid Rent'' | _ \<Rightarrow> False) xs"




definition reasons :: "item list \<Rightarrow> string list" where
  "reasons xs = map (\<lambda>a. snd (snd a)) xs"

text \<open>A charge whose status is unpaid or overdue, in any case of the letters.\<close>

definition unpaid_or_overdue :: "charge \<Rightarrow> bool" where
  "unpaid_or_overdue c =
     (case status c of Text s \<Rightarrow> lower s = ''unpaid'' \<or> lower s = ''overdue'' | _ \<Rightarrow> False)"

text \<open>The approved tuples of the two branches whose cap is floored at 0.\<close>

definition floored :: "item \<Rightarrow> bool" where
  "floored x = (case fst x of Dashed p d \<Rightarrow> p = ''Landscaping'' \<or> p = ''Unpaid Rent'' | _ \<Rightarrow> False)"

text \<open>The values that \<open>bool\<close> maps to \<open>False\<close>.\<close>

definition falsy_values :: "pyval set" where
  "falsy_values = {PNone, PBool False, PInt 0, PFloat 0, PStr [], PList [], PDict []}"

section \<open>Properties\<close>


subsection \<open>Rounding\<close>

lemma round_half_even_near:
  "of_int (round_half_even x) - 1 / 2 \<le> x \<and> x \<le> of_int (round_half_even x) + 1 / 2"
proof -
  define f where "f = \<lfloor>x\<rfloor>"
  have 1: "of_int f \<le> x" and 2: "x < of_int f + 1"
    unfolding f_def by linarith+
  have "round_half_even x =
     (if x - of_int f < 1 / 2 then f else if 1 / 2 < x - of_int f then f + 1
      else if even f then f else f + 1)"
    by (simp add: round_half_even_def Let_def f_def)
  with 1 2 show ?thesis
    by (auto split: if_splits)
qed



lemma round2_near: "\<bar>round2 x - x\<bar> \<le> 1 / 200"
proof -
  define r :: rat where "r = of_int (round_half_even (x * 100))"
  have "r - 1 / 2 \<le> x * 100" "x * 100 \<le> r + 1 / 2"
    unfolding r_def using round_half_even_near [of "x * 100"] by simp_all
  moreover have "round2 x = r / 100"
    by (simp add: round2_def r_def)
  ultimately show ?thesis
    by linarith
qed

lemma round2_0: "round2 0 = 0"
  by (simp add: round2_def round_half_even_def)


subsection \<open>Payout\<close>






subsection \<open>Documents gate\<close>

lemma sorted_REQ_DOCS: "sorted REQ_DOCS \<and> distinct REQ_DOCS"
  by code_simp

text \<open>
  C6: \<open>validate_gate\<close> approves exactly when the four required documents are present
  and both first-month flags are true.  Its list of missing documents is sorted, has no
  repetition and holds exactly the required documents that are absent; the two flags are
  reported as they are, whatever the documents; \<open>Status\<close> is \<open>Approved\<close> when
  approved and \<open>Declined\<close> otherwise.  The copy in \<open>ledger_review.py\<close> computes the
  same result.  With boolean flags \<open>b1\<close> and \<open>b2\<close> in the ledger the gate approves
  exactly when the documents are present and \<open>b1\<close> and \<open>b2\<close> hold, and it reports
  \<open>b1\<close> and \<open>b2\<close>; a flag that is absent or \<open>None\<close> declines.
\<close>

theorem validate_gate_spec:
  "fst (validate_gate dp ledger) =
     (dp ''lease_addendum'' = Some True \<and> dp ''lease_agreement'' = Some True
      \<and> dp ''notification_to_tenant'' = Some True \<and> dp ''tenant_ledger'' = Some True
      \<and> truthy (get_default (ledger ''first_month_rent_paid'') (PBool False))
      \<and> truthy (get_default (ledger ''first_month_sdi_premium_paid'') (PBool False)))
   \<and> sorted (Missing_documents (snd (validate_gate dp ledger)))
   \<and> distinct (Missing_documents (snd (validate_gate dp ledger)))
   \<and> set (Missing_documents (snd (validate_gate dp ledger))) =
       {d. d \<in> set [''lease_addendum'', ''lease_agreement'', ''notification_to_tenant'', ''tenant_ledger'']
           \<and> dp d \<noteq> Some True}
   \<and> First_Month_Paid (snd (validate_gate dp ledger)) =
       truthy (get_default (ledger ''first_month_rent_paid'') (PBool False))
   \<and> First_Month_SDI_Premium_Paid (snd (validate_gate dp ledger)) =
       truthy (get_default (ledger ''first_month_sdi_premium_paid'') (PBool False))
   \<and> Status (snd (validate_gate dp ledger)) =
       (if fst (validate_gate dp ledger) then ''Approved'' else ''Declined'')
   \<and> validate_gate_ledger_review dp ledger = validate_gate dp ledger
   \<and> (ledger ''first_month_rent_paid'' = Some (PBool b1)
        \<and> ledger ''first_month_sdi_premium_paid'' = Some (PBool b2) \<longrightarrow>
      fst (validate_gate dp ledger) =
        (dp ''lease_addendum'' = Some True \<and> dp ''lease_agreement'' = Some True
         \<and> dp ''notification_to_tenant'' = Some True \<and> dp ''tenant_ledger'' = Some True \<and> b1 \<and> b2)
      \<and> First_Month_Paid (snd (validate_gate dp ledger)) = b1
      \<and> First_Month_SDI_Premium_Paid (snd (validate_gate dp ledger)) = b2)
   \<and> (ledger ''first_month_rent_paid'' \<in> {None, Some PNone, Some (PBool False)}
        \<or> ledger ''first_month_sdi_premium_paid'' \<in> {None, Some PNone, Some (PBool False)} \<longrightarrow>
      \<not> fst (validate_gate dp ledger) \<and> Status (snd (validate_gate dp ledger)) = ''Declined'')"
proof -
  let ?absent = "\<lambda>d. \<not> (case dp d of None \<Rightarrow> False | Some b \<Rightarrow> b)"
  have ab: "\<And>d. ?absent d = (dp d \<noteq> Some True)"
    by (auto split: option.splits)
  have len: "(sort (filter ?absent REQ_DOCS) = []) =
      (dp ''lease_addendum'' = Some True \<and> dp ''lease_agreement'' = Some True
      \<and> dp ''notification_to_tenant'' = Some True \<and> dp ''tenant_ledger'' = Some True)"
    unfolding ab
    by (subst length_0_conv [symmetric], subst length_sort) (auto simp: REQ_DOCS_def filter_empty_conv)
  have st: "set (sort (filter ?absent REQ_DOCS)) =
       {d. d \<in> set [''lease_addendum'', ''lease_agreement'', ''notification_to_tenant'', ''tenant_ledger'']
           \<and> dp d \<noteq> Some True}"
    unfolding ab by (auto simp: REQ_DOCS_def)
  have di: "distinct (sort (filter ?absent REQ_DOCS))"
    using sorted_REQ_DOCS by simp
  have eq: "validate_gate_ledger_review dp ledger = validate_gate dp ledger"
    by (simp add: validate_gate_ledger_review_def validate_gate_def REQ_DOCS_ledger_review_def
        REQUIRED_FILES_def REQ_DOCS_def)
  have flags: "ledger ''first_month_rent_paid'' = Some (PBool b1)
        \<and> ledger ''first_month_sdi_premium_paid'' = Some (PBool b2) \<longrightarrow>
      fst (validate_gate dp ledger) =
        (dp ''lease_addendum'' = Some True \<and> dp ''lease_agreement'' = Some True
         \<and> dp ''notification_to_tenant'' = Some True \<and> dp ''tenant_ledger'' = Some True \<and> b1 \<and> b2)
      \<and> First_Month_Paid (snd (validate_gate dp ledger)) = b1
      \<and> First_Month_SDI_Premium_Paid (snd (validate_gate dp ledger)) = b2"
    using len by (auto simp: validate_gate_def Let_def get_default_def)
  have declines: "ledger ''first_month_rent_paid'' \<in> {None, Some PNone, Some (PBool False)}
        \<or> ledger ''first_month_sdi_premium_paid'' \<in> {None, Some PNone, Some (PBool False)} \<longrightarrow>
      \<not> fst (validate_gate dp ledger) \<and> Status (snd (validate_gate dp ledger)) = ''Declined''"
    by (auto simp: validate_gate_def Let_def get_default_def)
  have main: "fst (validate_gate dp ledger) =
     (dp ''lease_addendum'' = Some True \<and> dp ''lease_agreement'' = Some True
      \<and> dp ''notification_to_tenant'' = Some True \<and> dp ''tenant_ledger'' = Some True
      \<and> truthy (get_default (ledger ''first_month_rent_paid'') (PBool False))
      \<and> truthy (get_default (ledger ''first_month_sdi_premium_paid'') (PBool False)))
   \<and> sorted (Missing_documents (snd (validate_gate dp ledger)))
   \<and> distinct (Missing_documents (snd (validate_gate dp ledger)))
   \<and> set (Missing_documents (snd (validate_gate dp ledger))) =
       {d. d \<in> set [''lease_addendum'', ''lease_agreement'', ''notification_to_tenant'', ''tenant_ledger'']
           \<and> dp d \<noteq> Some True}
   \<and> First_Month_Paid (snd (validate_gate dp ledger)) =
       truthy (get_default (ledger ''first_month_rent_paid'') (PBool False))
   \<and> First_Month_SDI_Premium_Paid (snd (validate_gate dp ledger)) =
       truthy (get_default (ledger ''first_month_sdi_premium_paid'') (PBool False))
   \<and> Status (snd (validate_gate dp ledger)) =
       (if fst (validate_gate dp ledger) then ''Approved'' else ''Declined'')
   \<and> validate_gate_ledger_review dp ledger = validate_gate dp ledger"
    using len st di eq by (simp add: validate_gate_def Let_def)
  from main flags declines show ?thesis by blast
qed

theorem validate_gate_spec_witness:
  "fst (validate_gate
     [''lease_addendum'' \<mapsto> True, ''lease_agreement'' \<mapsto> True,
      ''notification_to_tenant'' \<mapsto> True, ''tenant_ledger'' \<mapsto> True]
     [''first_month_rent_paid'' \<mapsto> PBool True, ''first_month_sdi_premium_paid'' \<mapsto> PBool True])
   \<and> Missing_documents (snd (validate_gate
     [''lease_addendum'' \<mapsto> True, ''lease_agreement'' \<mapsto> True,
      ''notification_to_tenant'' \<mapsto> True, ''tenant_ledger'' \<mapsto> True]
     [''first_month_rent_paid'' \<mapsto> PBool True, ''first_month_sdi_premium_paid'' \<mapsto> PBool True])) = []
   \<and> Missing_documents (snd (validate_gate
     [''lease_addendum'' \<mapsto> False, ''tenant_ledger'' \<mapsto> True]
     [''first_month_rent_paid'' \<mapsto> PBool True])) = [''lease_addendum'', ''lease_agreement'', ''notification_to_tenant'']
   \<and> \<not> fst (validate_gate
     [''lease_addendum'' \<mapsto> True, ''lease_agreement'' \<mapsto> True,
      ''notification_to_tenant'' \<mapsto> True, ''tenant_ledger'' \<mapsto> True]
     [''first_month_rent_paid'' \<mapsto> PBool True, ''first_month_sdi_premium_paid'' \<mapsto> PBool False])
   \<and> \<not> First_Month_SDI_Premium_Paid (snd (validate_gate
     [''lease_addendum'' \<mapsto> True, ''lease_agreement'' \<mapsto> True,
      ''notification_to_tenant'' \<mapsto> True, ''tenant_ledger'' \<mapsto> True]
     [''first_month_rent_paid'' \<mapsto> PBool True, ''first_month_sdi_premium_paid'' \<mapsto> PBool False]))
   \<and> \<not> fst (validate_gate
     [''lease_addendum'' \<mapsto> True, ''lease_agreement'' \<mapsto> True,
      ''notification_to_tenant'' \<mapsto> True, ''tenant_ledger'' \<mapsto> True]
     [''first_month_sdi_premium_paid'' \<mapsto> PBool True])
   \<and> Status (snd (validate_gate
     [''lease_addendum'' \<mapsto> True, ''lease_agreement'' \<mapsto> True,
      ''notification_to_tenant'' \<mapsto> True, ''tenant_ledger'' \<mapsto> True]
     [''first_month_sdi_premium_paid'' \<mapsto> PBool True])) = ''Declined''"
proof -
  let ?dp = "[''lease_addendum'' \<mapsto> True, ''lease_agreement'' \<mapsto> True,
      ''notification_to_tenant'' \<mapsto> True, ''tenant_ledger'' \<mapsto> True]"
  let ?ledger = "[''first_month_rent_paid'' \<mapsto> PBool True, ''first_month_sdi_premium_paid'' \<mapsto> PBool True]"
  let ?unpaid = "[''first_month_rent_paid'' \<mapsto> PBool True, ''first_month_sdi_premium_paid'' \<mapsto> PBool False]"
  let ?unknown = "[''first_month_sdi_premium_paid'' \<mapsto> PBool True]"
  have d: "?dp ''lease_addendum'' = Some True \<and> ?dp ''lease_agreement'' = Some True
      \<and> ?dp ''notification_to_tenant'' = Some True \<and> ?dp ''tenant_ledger'' = Some True
      \<and> truthy (get_default (?ledger ''first_month_rent_paid'') (PBool False))
      \<and> truthy (get_default (?ledger ''first_month_sdi_premium_paid'') (PBool False))"
    by code_simp
  from validate_gate_spec [of ?dp ?ledger, THEN conjunct1] d
  have a: "fst (validate_gate ?dp ?ledger)"
    by (rule iffD2)
  have b: "Missing_documents (snd (validate_gate ?dp ?ledger)) = []"
    by code_simp
  have c: "Missing_documents (snd (validate_gate
     [''lease_addendum'' \<mapsto> False, ''tenant_ledger'' \<mapsto> True]
     [''first_month_rent_paid'' \<mapsto> PBool True])) = [''lease_addendum'', ''lease_agreement'', ''notification_to_tenant'']"
    by code_simp
  have u: "?unpaid ''first_month_rent_paid'' = Some (PBool True)
      \<and> ?unpaid ''first_month_sdi_premium_paid'' = Some (PBool False)"
    by code_simp
  from validate_gate_spec [of ?dp ?unpaid True False] u
  have e: "\<not> fst (validate_gate ?dp ?unpaid)
      \<and> \<not> First_Month_SDI_Premium_Paid (snd (validate_gate ?dp ?unpaid))"
    by blast
  have n: "?unknown ''first_month_rent_paid'' = None"
    by code_simp
  from validate_gate_spec [of ?dp ?unknown] n
  have f: "\<not> fst (validate_gate ?dp ?unknown) \<and> Status (snd (validate_gate ?dp ?unknown)) = ''Declined''"
    by blast
  from a b c e f show ?thesis by blast
qed

subsection \<open>One charge\<close>


lemma normalize_category_cases:
  "normalize_category cat desc \<in> set [''rekey'', ''landscaping'', ''unpaid_utilities'']
   \<or> normalize_category cat desc = cat"
  by (simp add: normalize_category_def)

lemma normalize_lease_break:
  assumes "normalize_category cat desc \<in> set [''lease_break'', ''relisting_fee'', ''lease_break_fee'']"
  shows "normalize_category cat desc = cat"
  using assms normalize_category_cases [of cat desc] by auto



lemma process_charge_hard:
  assumes "include_only_unpaid c = Inr True" "amount_of c = Inr amt"
    and "cat_of c \<in> set [''non_refundable_fee'', ''benefit_program'', ''pet_damage'', ''lawn_vacant'']"
  shows "process_charge mr st c = Inr (exclude st (Plain (desc_of c), amt, ''Policy exclusion''))"
  using assms by (simp add: process_charge_def Let_def)

lemma process_charge_normal_wear:
  assumes "include_only_unpaid c = Inr True" "amount_of c = Inr amt"
    and "cat_of c \<in> set [''cleaning'', ''normal_wear'']" "wear_of c = ''normal''"
  shows "process_charge mr st c = Inr (exclude st (Plain (desc_of c), amt, ''Normal wear and tear''))"
proof -
  from assms(3) have "cat_of c \<notin> set [''non_refundable_fee'', ''benefit_program'', ''pet_damage'', ''lawn_vacant'']"
    by auto
  with assms show ?thesis by (simp add: process_charge_def Let_def)
qed

lemma process_charge_dispatch:
  assumes "include_only_unpaid c = Inr True" "amount_of c = Inr amt"
    and "\<not> excluded_before_normalization c"
  shows "process_charge mr st c =
     Inr (dispatch mr st c (normalize_category (cat_of c) (desc_of c)) (desc_of c) amt (wear_of c))"
  using assms by (auto simp: process_charge_def excluded_before_normalization_def Let_def)



lemma dispatch_emits:
  "\<exists>xs ys. approved (dispatch mr st c cat desc amt wr) = approved st @ xs
         \<and> excluded (dispatch mr st c cat desc amt wr) = excluded st @ ys"
  by (simp add: dispatch_def approve_def exclude_def Let_def)

lemma process_charge_emits:
  assumes "process_charge mr st c = Inr st'"
  shows "\<exists>xs ys. approved st' = approved st @ xs \<and> excluded st' = excluded st @ ys"
  using assms dispatch_emits [of mr st c]
  by (auto simp: process_charge_def Let_def approve_def exclude_def split: sum.splits if_splits)

lemma run_charges_emits:
  "run_charges mr st cs = Inr st' \<Longrightarrow>
   \<exists>xs ys. approved st' = approved st @ xs \<and> excluded st' = excluded st @ ys"
proof (induction cs arbitrary: st)
  case Nil
  then show ?case by simp
next
  case (Cons c cs)
  then obtain st1 where p: "process_charge mr st c = Inr st1" and r: "run_charges mr st1 cs = Inr st'"
    by (auto split: sum.splits)
  from process_charge_emits [OF p] Cons.IH [OF r] show ?case by auto
qed

lemma run_charges_member:
  "run_charges mr st cs = Inr st' \<Longrightarrow> c \<in> set cs \<Longrightarrow>
   \<exists>st1 st2. process_charge mr st1 c = Inr st2
      \<and> set (approved st2) \<subseteq> set (approved st') \<and> set (excluded st2) \<subseteq> set (excluded st')"
proof (induction cs arbitrary: st)
  case Nil
  then show ?case by simp
next
  case (Cons d cs)
  then obtain st1 where p: "process_charge mr st d = Inr st1" and r: "run_charges mr st1 cs = Inr st'"
    by (auto split: sum.splits)
  show ?case
  proof (cases "c = d")
    case True
    from run_charges_emits [OF r] have "set (approved st1) \<subseteq> set (approved st')"
      "set (excluded st1) \<subseteq> set (excluded st')" by auto
    with p True show ?thesis by blast
  next
    case False
    with Cons.prems have "c \<in> set cs" by simp
    from Cons.IH [OF r this] show ?thesis .
  qed
qed









subsection \<open>The approved total\<close>

text \<open>
  C2 (as amended): the \<open>total_approved\<close> that \<open>apply_policy_rules\<close> returns is
  \<open>round(sum of the approved amounts, 2)\<close>; it is within 0.005 of that sum, on either
  side.
\<close>

theorem total_approved_rounded_sum:
  assumes "apply_policy_rules charges monthly_rent = Inr (ap, ex, total_approved)"
  shows "total_approved = round2 (sum_list (amounts ap)) \<and> \<bar>total_approved - sum_list (amounts ap)\<bar> \<le> 1 / 200"
proof -
  from assms have "total_approved = round2 (sum_list (amounts ap))"
    by (auto simp: apply_policy_rules_def split: sum.splits)
  then show ?thesis using round2_near by simp
qed

theorem total_approved_rounded_sum_witness:
  "apply_policy_rules
     [\<lparr>category = Text ''rekey'', description = Text ''front door'', amount = Some (PFloat (1201 / 8)),
       status = Text ''unpaid'', wear = Null, accelerated_moveout = None, linked_to_occupancy = None\<rparr>]
     1000 = Inr ([(Dashed ''Rekey'' ''front door'', 1201 / 8, ''Move-out rekey'')], [], 3753 / 25)
   \<and> (3753 / 25 :: rat) = round2 (sum_list (amounts [(Dashed ''Rekey'' ''front door'', 1201 / 8, ''Move-out rekey'')]))
   \<and> \<bar>3753 / 25 - sum_list (amounts [(Dashed ''Rekey'' ''front door'', 1201 / 8, ''Move-out rekey'')])\<bar> \<le> 1 / 200"
proof -
  have h: "apply_policy_rules
     [\<lparr>category = Text ''rekey'', description = Text ''front door'', amount = Some (PFloat (1201 / 8)),
       status = Text ''unpaid'', wear = Null, accelerated_moveout = None, linked_to_occupancy = None\<rparr>]
     1000 = Inr ([(Dashed ''Rekey'' ''front door'', 1201 / 8, ''Move-out rekey'')], [], 3753 / 25)"
    by code_simp
  from total_approved_rounded_sum [OF h] h show ?thesis by blast
qed

text \<open>
  The total can exceed the sum of the approved amounts: one rekey charge of 0.006 is
  approved in full and the total is 0.01.
\<close>

theorem total_approved_can_exceed_sum:
  "apply_policy_rules
     [\<lparr>category = Text ''rekey'', description = Text ''front door'', amount = Some (PFloat (3 / 500)),
       status = Text ''unpaid'', wear = Null, accelerated_moveout = None, linked_to_occupancy = None\<rparr>]
     1000 = Inr ([(Dashed ''Rekey'' ''front door'', 3 / 500, ''Move-out rekey'')], [], 1 / 100)
   \<and> sum_list (amounts [(Dashed ''Rekey'' ''front door'', 3 / 500, ''Move-out rekey'')]) < 1 / 100"
proof -
  have a: "apply_policy_rules
     [\<lparr>category = Text ''rekey'', description = Text ''front door'', amount = Some (PFloat (3 / 500)),
       status = Text ''unpaid'', wear = Null, accelerated_moveout = None, linked_to_occupancy = None\<rparr>]
     1000 = Inr ([(Dashed ''Rekey'' ''front door'', 3 / 500, ''Move-out rekey'')], [], 1 / 100)"
    by code_simp
  have b: "sum_list (amounts [(Dashed ''Rekey'' ''front door'', 3 / 500, ''Move-out rekey'')]) < 1 / 100"
    by (simp add: amounts_def)
  from a b show ?thesis by blast
qed

subsection \<open>Amounts that are missing or not numbers\<close>






subsection \<open>The branches of the dispatch\<close>

lemma unpaid_or_overdue_iff:
  "unpaid_or_overdue c = (include_only_unpaid c = Inr True)"
  by (cases "status c") (auto simp: unpaid_or_overdue_def include_only_unpaid_def lower_def)

lemma dispatch_lease_break:
  assumes "cat \<in> set [''lease_break'', ''relisting_fee'', ''lease_break_fee'']"
  shows "dispatch mr st c cat desc amt wr =
     (if flag (accelerated_moveout c)
      then st\<lparr>approved := approved st @
              [(Dashed ''Lease Break Fee (Accelerated)'' desc, amt, ''Exception: accelerated move-out'')]\<rparr>
      else st\<lparr>approved := approved st @ [(Dashed ''Lease Break Fee'' desc, min amt mr, ''Capped at one month rent'')],
              excluded := excluded st @
                (if min amt mr < amt then [(Plain desc, amt - min amt mr, ''Over one month rent'')] else [])\<rparr>)"
proof -
  from assms consider "cat = ''lease_break''" | "cat = ''relisting_fee''" | "cat = ''lease_break_fee''"
    by auto
  then show ?thesis
  proof cases
    case 1
    show ?thesis unfolding 1 by (simp add: dispatch_def Let_def approve_def exclude_def)
  next
    case 2
    show ?thesis unfolding 2 by (simp add: dispatch_def Let_def approve_def exclude_def)
  next
    case 3
    show ?thesis unfolding 3 by (simp add: dispatch_def Let_def approve_def exclude_def)
  qed
qed

lemma dispatch_landscaping:
  "dispatch mr st c ''landscaping'' desc amt wr =
     (if 0 < max 0 (min amt (500 - landscaping_used st))
      then st\<lparr>approved := approved st @
                 [(Dashed ''Landscaping'' desc, max 0 (min amt (500 - landscaping_used st)), ''Capped at $500'')],
              excluded := excluded st @
                 (if max 0 (min amt (500 - landscaping_used st)) < amt
                  then [(Plain desc, amt - max 0 (min amt (500 - landscaping_used st)), ''Over $500 cap'')]
                  else []),
              landscaping_used := landscaping_used st + max 0 (min amt (500 - landscaping_used st))\<rparr>
      else st\<lparr>excluded := excluded st @ [(Plain desc, amt, ''Over $500 cap'')]\<rparr>)"
  by (simp add: dispatch_def Let_def approve_def exclude_def)

lemma dispatch_unpaid_rent:
  "dispatch mr st c ''unpaid_rent'' desc amt wr =
     (if 0 < max 0 (min amt (mr - rent_used st))
      then st\<lparr>approved := approved st @
                 [(Dashed ''Unpaid Rent'' desc, max 0 (min amt (mr - rent_used st)), ''Capped at one month rent'')],
              excluded := excluded st @
                 (if max 0 (min amt (mr - rent_used st)) < amt
                  then [(Plain desc, amt - max 0 (min amt (mr - rent_used st)), ''Over one month rent'')]
                  else []),
              rent_used := rent_used st + max 0 (min amt (mr - rent_used st))\<rparr>
      else st\<lparr>excluded := excluded st @ [(Plain desc, amt, ''Over one month rent'')]\<rparr>)"
  by (simp add: dispatch_def Let_def approve_def exclude_def)

lemma lease_break_not_excluded:
  assumes "cat_of c \<in> set [''lease_break'', ''relisting_fee'', ''lease_break_fee'']"
  shows "\<not> excluded_before_normalization c"
  using assms by (auto simp: excluded_before_normalization_def)

lemma dispatch_floored:
  assumes "\<forall>x\<in>set (approved st). floored x \<longrightarrow> 0 < fst (snd x)"
  shows "\<forall>x\<in>set (approved (dispatch mr st c cat desc amt wr)). floored x \<longrightarrow> 0 < fst (snd x)"
proof -
  consider "cat = ''landscaping''" | "cat = ''unpaid_rent''"
    | "cat \<noteq> ''landscaping''" "cat \<noteq> ''unpaid_rent''"
    by blast
  then show ?thesis
  proof cases
    case 1
    show ?thesis
      unfolding 1 dispatch_landscaping using assms by (simp add: floored_def)
  next
    case 2
    show ?thesis
      unfolding 2 dispatch_unpaid_rent using assms by (simp add: floored_def)
  next
    case 3
    then show ?thesis
      using assms by (simp add: dispatch_def Let_def approve_def exclude_def floored_def)
  qed
qed

lemma process_charge_floored:
  assumes "process_charge mr st c = Inr st'"
    and "\<forall>x\<in>set (approved st). floored x \<longrightarrow> 0 < fst (snd x)"
  shows "\<forall>x\<in>set (approved st'). floored x \<longrightarrow> 0 < fst (snd x)"
proof -
  let ?d = "dispatch mr st c (normalize_category (cat_of c) (desc_of c)) (desc_of c)
                (case amount_of c of Inr a \<Rightarrow> a | Inl e \<Rightarrow> 0) (wear_of c)"
  have "st' = ?d \<or> approved st' = approved st"
    using assms(1)
    by (auto simp: process_charge_def Let_def exclude_def split: sum.splits if_splits)
  then show ?thesis
  proof
    assume "st' = ?d"
    then show ?thesis
      using dispatch_floored [OF assms(2)] by simp
  next
    assume "approved st' = approved st"
    then show ?thesis
      using assms(2) by simp
  qed
qed

lemma run_charges_floored:
  "run_charges mr st cs = Inr st' \<Longrightarrow> \<forall>x\<in>set (approved st). floored x \<longrightarrow> 0 < fst (snd x)
   \<Longrightarrow> \<forall>x\<in>set (approved st'). floored x \<longrightarrow> 0 < fst (snd x)"
proof (induction cs arbitrary: st)
  case Nil
  then show ?case by simp
next
  case (Cons c cs)
  from Cons.prems(1) obtain st1 where p: "process_charge mr st c = Inr st1"
    and r: "run_charges mr st1 cs = Inr st'"
    by (auto split: sum.splits)
  from Cons.IH [OF r process_charge_floored [OF p Cons.prems(2)]] show ?case .
qed

lemma truthy_iff: "truthy v = (v \<notin> falsy_values)"
  by (cases v) (auto simp: falsy_values_def)

lemma flag_iff: "flag e = (\<exists>v. e = Some v \<and> v \<notin> falsy_values)"
  by (cases e) (auto simp: flag_def get_default_def truthy_iff falsy_values_def)


lemma rent_items_append: "rent_items (xs @ ys) = rent_items xs @ rent_items ys"
  by (simp add: rent_items_def)









subsection \<open>Exclusions before the normalisation\<close>

text \<open>
  C4 (as amended): the two exclusions are decided on the category as it was given, before
  the synonyms are looked at.  A charge with status unpaid or overdue whose category is
  one of \<open>non_refundable_fee\<close>, \<open>benefit_program\<close>, \<open>pet_damage\<close>,
  \<open>lawn_vacant\<close> is excluded in full with reason \<open>Policy exclusion\<close>, whatever its
  description, and one with status unpaid or overdue whose category is \<open>cleaning\<close> or
  \<open>normal_wear\<close> and whose wear is \<open>normal\<close> is excluded in full with reason
  \<open>Normal wear and tear\<close>; nothing is approved for either, and the tuple is in the
  excluded list that \<open>apply_policy_rules\<close> returns.
\<close>

theorem exclusions_precede_normalization:
  assumes "unpaid_or_overdue c" and "amount_of c = Inr amt"
  shows "(cat_of c \<in> set [''non_refundable_fee'', ''benefit_program'', ''pet_damage'', ''lawn_vacant'']
            \<longrightarrow> process_charge monthly_rent st c =
                  Inr (st\<lparr>excluded := excluded st @ [(Plain (desc_of c), amt, ''Policy exclusion'')]\<rparr>))
       \<and> (cat_of c \<in> set [''cleaning'', ''normal_wear''] \<and> wear_of c = ''normal''
            \<longrightarrow> process_charge monthly_rent st c =
                  Inr (st\<lparr>excluded := excluded st @ [(Plain (desc_of c), amt, ''Normal wear and tear'')]\<rparr>))
       \<and> (c \<in> set charges \<and> apply_policy_rules charges monthly_rent = Inr (ap, ex, total_approved)
            \<longrightarrow> (cat_of c \<in> set [''non_refundable_fee'', ''benefit_program'', ''pet_damage'', ''lawn_vacant'']
                    \<longrightarrow> (Plain (desc_of c), amt, ''Policy exclusion'') \<in> set ex)
               \<and> (cat_of c \<in> set [''cleaning'', ''normal_wear''] \<and> wear_of c = ''normal''
                    \<longrightarrow> (Plain (desc_of c), amt, ''Normal wear and tear'') \<in> set ex))"
proof -
  from assms(1) have u: "include_only_unpaid c = Inr True"
    by (simp add: unpaid_or_overdue_iff)
  have hard: "process_charge mr s c = Inr (s\<lparr>excluded := excluded s @ [(Plain (desc_of c), amt, ''Policy exclusion'')]\<rparr>)"
    if "cat_of c \<in> set [''non_refundable_fee'', ''benefit_program'', ''pet_damage'', ''lawn_vacant'']"
    for mr s
    using process_charge_hard [OF u assms(2) that] by (simp add: exclude_def)
  have nw: "process_charge mr s c = Inr (s\<lparr>excluded := excluded s @ [(Plain (desc_of c), amt, ''Normal wear and tear'')]\<rparr>)"
    if "cat_of c \<in> set [''cleaning'', ''normal_wear''] \<and> wear_of c = ''normal''"
    for mr s
    using process_charge_normal_wear [OF u assms(2)] that by (simp add: exclude_def)
  have lst: "(cat_of c \<in> set [''non_refundable_fee'', ''benefit_program'', ''pet_damage'', ''lawn_vacant'']
                    \<longrightarrow> (Plain (desc_of c), amt, ''Policy exclusion'') \<in> set ex)
               \<and> (cat_of c \<in> set [''cleaning'', ''normal_wear''] \<and> wear_of c = ''normal''
                    \<longrightarrow> (Plain (desc_of c), amt, ''Normal wear and tear'') \<in> set ex)"
    if m: "c \<in> set charges" and r: "apply_policy_rules charges monthly_rent = Inr (ap, ex, total_approved)"
  proof -
    from r obtain st' where run: "run_charges monthly_rent initial_state charges = Inr st'"
      and ex: "ex = excluded st'"
      by (auto simp: apply_policy_rules_def split: sum.splits)
    from run_charges_member [OF run m] obtain st1 st2
      where p: "process_charge monthly_rent st1 c = Inr st2"
        and sub: "set (excluded st2) \<subseteq> set (excluded st')"
      by blast
    show ?thesis
    proof (intro conjI impI)
      assume "cat_of c \<in> set [''non_refundable_fee'', ''benefit_program'', ''pet_damage'', ''lawn_vacant'']"
      from hard [OF this, of monthly_rent st1] p
      have "st2 = st1\<lparr>excluded := excluded st1 @ [(Plain (desc_of c), amt, ''Policy exclusion'')]\<rparr>" by simp
      then have "(Plain (desc_of c), amt, ''Policy exclusion'') \<in> set (excluded st2)"
        by simp
      with sub ex show "(Plain (desc_of c), amt, ''Policy exclusion'') \<in> set ex" by blast
    next
      assume "cat_of c \<in> set [''cleaning'', ''normal_wear''] \<and> wear_of c = ''normal''"
      from nw [OF this, of monthly_rent st1] p
      have "st2 = st1\<lparr>excluded := excluded st1 @ [(Plain (desc_of c), amt, ''Normal wear and tear'')]\<rparr>" by simp
      then have "(Plain (desc_of c), amt, ''Normal wear and tear'') \<in> set (excluded st2)"
        by simp
      with sub ex show "(Plain (desc_of c), amt, ''Normal wear and tear'') \<in> set ex" by blast
    qed
  qed
  from hard nw lst show ?thesis by blast
qed

theorem exclusions_precede_normalization_witness:
  "normalize_category ''pet_damage'' ''yard and lawn repair, change locks'' = ''rekey''
   \<and> normalize_category ''lawn_vacant'' ''mowing'' = ''landscaping''
   \<and> normalize_category ''cleaning'' ''water stain'' = ''unpaid_utilities''
   \<and> process_charge 1000 initial_state
       \<lparr>category = Text ''Pet_Damage '', description = Text ''yard and lawn repair, change locks'',
        amount = Some (PFloat 250), status = Text ''unpaid'', wear = Null,
        accelerated_moveout = None, linked_to_occupancy = None\<rparr>
     = Inr \<lparr>approved = [], excluded = [(Plain ''yard and lawn repair, change locks'', 250, ''Policy exclusion'')],
            landscaping_used = 0, rent_used = 0\<rparr>
   \<and> process_charge 1000 initial_state
       \<lparr>category = Text ''cleaning'', description = Text ''water stain'',
        amount = Some (PFloat 80), status = Text ''Overdue'', wear = Text '' Normal'',
        accelerated_moveout = None, linked_to_occupancy = None\<rparr>
     = Inr \<lparr>approved = [], excluded = [(Plain ''water stain'', 80, ''Normal wear and tear'')],
            landscaping_used = 0, rent_used = 0\<rparr>
   \<and> apply_policy_rules
       [\<lparr>category = Text ''lawn_vacant'', description = Text ''mowing'',
         amount = Some (PInt 100), status = Text ''unpaid'', wear = Missing,
         accelerated_moveout = None, linked_to_occupancy = None\<rparr>,
        \<lparr>category = Text ''cleaning'', description = Text ''water stain'',
         amount = Some (PFloat 80), status = Text ''Overdue'', wear = Text '' Normal'',
         accelerated_moveout = None, linked_to_occupancy = None\<rparr>] 1000
     = Inr ([], [(Plain ''mowing'', 100, ''Policy exclusion''), (Plain ''water stain'', 80, ''Normal wear and tear'')], 0)"
proof -
  let ?a = "\<lparr>category = Text ''Pet_Damage '', description = Text ''yard and lawn repair, change locks'',
        amount = Some (PFloat 250), status = Text ''unpaid'', wear = Null,
        accelerated_moveout = None, linked_to_occupancy = None\<rparr>"
  let ?b = "\<lparr>category = Text ''cleaning'', description = Text ''water stain'',
        amount = Some (PFloat 80), status = Text ''Overdue'', wear = Text '' Normal'',
        accelerated_moveout = None, linked_to_occupancy = None\<rparr>"
  have a1: "unpaid_or_overdue ?a" by code_simp
  have a2: "amount_of ?a = Inr 250" by code_simp
  have a3: "cat_of ?a \<in> set [''non_refundable_fee'', ''benefit_program'', ''pet_damage'', ''lawn_vacant'']"
    by code_simp
  have a4: "desc_of ?a = ''yard and lawn repair, change locks''" by code_simp
  have b1: "unpaid_or_overdue ?b" by code_simp
  have b2: "amount_of ?b = Inr 80" by code_simp
  have b3: "cat_of ?b \<in> set [''cleaning'', ''normal_wear''] \<and> wear_of ?b = ''normal''"
    by code_simp
  have b4: "desc_of ?b = ''water stain''" by code_simp
  have s1: "normalize_category ''pet_damage'' ''yard and lawn repair, change locks'' = ''rekey''" by code_simp
  have s2: "normalize_category ''lawn_vacant'' ''mowing'' = ''landscaping''" by code_simp
  have s3: "normalize_category ''cleaning'' ''water stain'' = ''unpaid_utilities''" by code_simp
  have i: "initial_state\<lparr>excluded := excluded initial_state @ [x]\<rparr>
      = \<lparr>approved = [], excluded = [x], landscaping_used = 0, rent_used = 0\<rparr>" for x
    by (simp add: initial_state_def)
  from exclusions_precede_normalization [OF a1 a2, of 1000 initial_state] a3
  have ra: "process_charge 1000 initial_state ?a
     = Inr \<lparr>approved = [], excluded = [(Plain ''yard and lawn repair, change locks'', 250, ''Policy exclusion'')],
            landscaping_used = 0, rent_used = 0\<rparr>"
    unfolding a4 i by blast
  from exclusions_precede_normalization [OF b1 b2, of 1000 initial_state] b3
  have rb: "process_charge 1000 initial_state ?b
     = Inr \<lparr>approved = [], excluded = [(Plain ''water stain'', 80, ''Normal wear and tear'')],
            landscaping_used = 0, rent_used = 0\<rparr>"
    unfolding b4 i by blast
  have l: "apply_policy_rules
       [\<lparr>category = Text ''lawn_vacant'', description = Text ''mowing'',
         amount = Some (PInt 100), status = Text ''unpaid'', wear = Missing,
         accelerated_moveout = None, linked_to_occupancy = None\<rparr>, ?b] 1000
     = Inr ([], [(Plain ''mowing'', 100, ''Policy exclusion''), (Plain ''water stain'', 80, ''Normal wear and tear'')], 0)"
    by code_simp
  from s1 s2 s3 ra rb l show ?thesis by blast
qed

text \<open>
  A charge that is not unpaid or overdue is excluded as paid, also when its category is
  \<open>cleaning\<close> and its wear \<open>normal\<close>.
\<close>

theorem paid_normal_wear_not_reported_as_normal_wear:
  "apply_policy_rules
     [\<lparr>category = Text ''cleaning'', description = Text ''wipe down'', amount = Some (PFloat 80),
       status = Text ''paid'', wear = Text ''normal'',
       accelerated_moveout = None, linked_to_occupancy = None\<rparr>]
     1000 = Inr ([], [(Plain ''wipe down'', 80, ''Paid/Not overdue'')], 0)"
  by code_simp

subsection \<open>Lease-break charges\<close>

text \<open>
  C9: a charge with status unpaid or overdue whose normalised category is
  \<open>lease_break\<close>, \<open>relisting_fee\<close> or \<open>lease_break_fee\<close> and whose
  \<open>accelerated_moveout\<close> entry is absent or falsy is approved for
  \<open>min(amount, monthly_rent)\<close> with reason \<open>Capped at one month rent\<close>, and the rest
  of the amount, if any, is excluded.  The cap has no floor: with a \<open>monthly_rent\<close> of 0
  or less the approved tuple has an amount of 0 or less.  The tuples of the landscaping
  and unpaid-rent branches always have a positive amount, and these branches exclude the
  whole amount when nothing is left of their cap.
\<close>

theorem lease_break_cap_has_no_floor:
  assumes "unpaid_or_overdue c" and "amount_of c = Inr amt"
    and "normalize_category (cat_of c) (desc_of c) \<in> set [''lease_break'', ''relisting_fee'', ''lease_break_fee'']"
    and "accelerated_moveout c = None \<or> (\<exists>v\<in>falsy_values. accelerated_moveout c = Some v)"
  shows "process_charge monthly_rent st c =
           Inr (st\<lparr>approved := approved st @
                      [(Dashed ''Lease Break Fee'' (desc_of c), min amt monthly_rent, ''Capped at one month rent'')],
                    excluded := excluded st @
                      (if min amt monthly_rent < amt
                       then [(Plain (desc_of c), amt - min amt monthly_rent, ''Over one month rent'')] else [])\<rparr>)
       \<and> (c \<in> set charges \<and> apply_policy_rules charges monthly_rent = Inr (ap, ex, total_approved)
            \<longrightarrow> (Dashed ''Lease Break Fee'' (desc_of c), min amt monthly_rent, ''Capped at one month rent'') \<in> set ap
               \<and> (monthly_rent \<le> 0 \<longrightarrow>
                    (\<exists>x\<in>set ap. snd (snd x) = ''Capped at one month rent'' \<and> fst (snd x) \<le> 0)))
       \<and> (apply_policy_rules charges monthly_rent = Inr (ap, ex, total_approved)
            \<longrightarrow> (\<forall>x\<in>set ap. floored x \<longrightarrow> 0 < fst (snd x)))
       \<and> (min amt1 (500 - landscaping_used st1) \<le> 0
            \<longrightarrow> dispatch monthly_rent st1 c1 ''landscaping'' desc1 amt1 wr1 =
                  st1\<lparr>excluded := excluded st1 @ [(Plain desc1, amt1, ''Over $500 cap'')]\<rparr>)
       \<and> (min amt1 (monthly_rent - rent_used st1) \<le> 0
            \<longrightarrow> dispatch monthly_rent st1 c1 ''unpaid_rent'' desc1 amt1 wr1 =
                  st1\<lparr>excluded := excluded st1 @ [(Plain desc1, amt1, ''Over one month rent'')]\<rparr>)"
proof -
  let ?item = "(Dashed ''Lease Break Fee'' (desc_of c), min amt monthly_rent, ''Capped at one month rent'')"
  from assms(1) have u: "include_only_unpaid c = Inr True"
    by (simp add: unpaid_or_overdue_iff)
  from assms(4) have nf: "\<not> flag (accelerated_moveout c)"
    by (auto simp: flag_iff)
  from normalize_lease_break [OF assms(3)] assms(3)
  have cat: "cat_of c \<in> set [''lease_break'', ''relisting_fee'', ''lease_break_fee'']" by simp
  have step: "process_charge mr s c =
           Inr (s\<lparr>approved := approved s @
                      [(Dashed ''Lease Break Fee'' (desc_of c), min amt mr, ''Capped at one month rent'')],
                    excluded := excluded s @
                      (if min amt mr < amt
                       then [(Plain (desc_of c), amt - min amt mr, ''Over one month rent'')] else [])\<rparr>)" for mr s
    unfolding process_charge_dispatch [OF u assms(2) lease_break_not_excluded [OF cat]]
      dispatch_lease_break [OF assms(3)]
    using nf by simp
  have lst: "c \<in> set charges \<and> apply_policy_rules charges monthly_rent = Inr (ap, ex, total_approved)
       \<longrightarrow> ?item \<in> set ap
          \<and> (monthly_rent \<le> 0 \<longrightarrow> (\<exists>x\<in>set ap. snd (snd x) = ''Capped at one month rent'' \<and> fst (snd x) \<le> 0))"
  proof
    assume a: "c \<in> set charges \<and> apply_policy_rules charges monthly_rent = Inr (ap, ex, total_approved)"
    then obtain st' where run: "run_charges monthly_rent initial_state charges = Inr st'"
      and ap: "ap = approved st'"
      by (auto simp: apply_policy_rules_def split: sum.splits)
    from a have m: "c \<in> set charges" by simp
    from run_charges_member [OF run m] obtain s1 s2
      where p: "process_charge monthly_rent s1 c = Inr s2"
        and sub: "set (approved s2) \<subseteq> set (approved st')"
      by blast
    from p have "approved s2 = approved s1 @ [?item]"
      unfolding step by auto
    then have "?item \<in> set (approved s2)" by simp
    with sub ap have i: "?item \<in> set ap" by blast
    have "\<exists>x\<in>set ap. snd (snd x) = ''Capped at one month rent'' \<and> fst (snd x) \<le> 0"
      if "monthly_rent \<le> 0"
    proof -
      from that have "min amt monthly_rent \<le> 0" by (simp add: min_le_iff_disj)
      with i show ?thesis by force
    qed
    with i show "?item \<in> set ap
          \<and> (monthly_rent \<le> 0 \<longrightarrow> (\<exists>x\<in>set ap. snd (snd x) = ''Capped at one month rent'' \<and> fst (snd x) \<le> 0))"
      by blast
  qed
  have fl: "apply_policy_rules charges monthly_rent = Inr (ap, ex, total_approved)
            \<longrightarrow> (\<forall>x\<in>set ap. floored x \<longrightarrow> 0 < fst (snd x))"
  proof
    assume "apply_policy_rules charges monthly_rent = Inr (ap, ex, total_approved)"
    then obtain st' where run: "run_charges monthly_rent initial_state charges = Inr st'"
      and ap: "ap = approved st'"
      by (auto simp: apply_policy_rules_def split: sum.splits)
    have "\<forall>x\<in>set (approved initial_state). floored x \<longrightarrow> 0 < fst (snd x)"
      by (simp add: initial_state_def)
    from run_charges_floored [OF run this] ap
    show "\<forall>x\<in>set ap. floored x \<longrightarrow> 0 < fst (snd x)" by simp
  qed
  have l2: "min amt1 (500 - landscaping_used st1) \<le> 0
            \<longrightarrow> dispatch monthly_rent st1 c1 ''landscaping'' desc1 amt1 wr1 =
                  st1\<lparr>excluded := excluded st1 @ [(Plain desc1, amt1, ''Over $500 cap'')]\<rparr>"
    by (simp add: dispatch_landscaping)
  have r2: "min amt1 (monthly_rent - rent_used st1) \<le> 0
            \<longrightarrow> dispatch monthly_rent st1 c1 ''unpaid_rent'' desc1 amt1 wr1 =
                  st1\<lparr>excluded := excluded st1 @ [(Plain desc1, amt1, ''Over one month rent'')]\<rparr>"
    by (simp add: dispatch_unpaid_rent)
  show ?thesis
    apply (intro conjI)
        apply (rule step)
       apply (rule lst)
      apply (rule fl)
     apply (rule l2)
    apply (rule r2)
    done
qed

theorem lease_break_cap_has_no_floor_witness:
  "apply_policy_rules
     [\<lparr>category = Text ''Lease_Break'', description = Text ''early exit'', amount = Some (PFloat 50),
       status = Text ''unpaid'', wear = Missing,
       accelerated_moveout = Some (PBool False), linked_to_occupancy = None\<rparr>,
      \<lparr>category = Text ''unpaid_rent'', description = Text ''June'', amount = Some (PFloat 50),
       status = Text ''unpaid'', wear = Missing,
       accelerated_moveout = None, linked_to_occupancy = None\<rparr>]
     (- 5)
   = Inr ([(Dashed ''Lease Break Fee'' ''early exit'', - 5, ''Capped at one month rent'')],
          [(Plain ''early exit'', 55, ''Over one month rent''), (Plain ''June'', 50, ''Over one month rent'')],
          - 5)
   \<and> (Dashed ''Lease Break Fee'' ''early exit'', - 5, ''Capped at one month rent'')
       \<in> set [(Dashed ''Lease Break Fee'' ''early exit'', - 5 :: rat, ''Capped at one month rent'')]
   \<and> (\<exists>x\<in>set [(Dashed ''Lease Break Fee'' ''early exit'', - 5 :: rat, ''Capped at one month rent'')].
         snd (snd x) = ''Capped at one month rent'' \<and> fst (snd x) \<le> 0)
   \<and> apply_policy_rules
     [\<lparr>category = Text ''relisting_fee'', description = Text ''relist'', amount = Some (PInt 300),
       status = Text ''overdue'', wear = Missing,
       accelerated_moveout = None, linked_to_occupancy = None\<rparr>]
     0
   = Inr ([(Dashed ''Lease Break Fee'' ''relist'', 0, ''Capped at one month rent'')],
          [(Plain ''relist'', 300, ''Over one month rent'')], 0)"
proof -
  let ?c = "\<lparr>category = Text ''Lease_Break'', description = Text ''early exit'', amount = Some (PFloat 50),
       status = Text ''unpaid'', wear = Missing,
       accelerated_moveout = Some (PBool False), linked_to_occupancy = None\<rparr>"
  let ?r = "\<lparr>category = Text ''unpaid_rent'', description = Text ''June'', amount = Some (PFloat 50),
       status = Text ''unpaid'', wear = Missing,
       accelerated_moveout = None, linked_to_occupancy = None\<rparr>"
  let ?ap = "[(Dashed ''Lease Break Fee'' ''early exit'', - 5 :: rat, ''Capped at one month rent'')]"
  let ?ex = "[(Plain ''early exit'', 55 :: rat, ''Over one month rent''), (Plain ''June'', 50, ''Over one month rent'')]"
  have h1: "unpaid_or_overdue ?c" by code_simp
  have h2: "amount_of ?c = Inr 50" by code_simp
  have h3: "normalize_category (cat_of ?c) (desc_of ?c) \<in> set [''lease_break'', ''relisting_fee'', ''lease_break_fee'']"
    by code_simp
  have h4: "accelerated_moveout ?c = None \<or> (\<exists>v\<in>falsy_values. accelerated_moveout ?c = Some v)"
    by (simp add: falsy_values_def)
  have d: "desc_of ?c = ''early exit''" by code_simp
  have run: "apply_policy_rules [?c, ?r] (- 5) = Inr (?ap, ?ex, - 5)"
    by code_simp
  have m: "?c \<in> set [?c, ?r]" by simp
  have mn: "min (50 :: rat) (- 5) = - 5" by simp
  from lease_break_cap_has_no_floor [OF h1 h2 h3 h4, where charges = "[?c, ?r]" and monthly_rent = "- 5"
      and ap = ?ap and ex = ?ex and total_approved = "- 5"] m run
  have "(Dashed ''Lease Break Fee'' ''early exit'', - 5, ''Capped at one month rent'') \<in> set ?ap
      \<and> (\<exists>x\<in>set ?ap. snd (snd x) = ''Capped at one month rent'' \<and> fst (snd x) \<le> 0)"
    unfolding d mn by simp
  moreover have "apply_policy_rules
     [\<lparr>category = Text ''relisting_fee'', description = Text ''relist'', amount = Some (PInt 300),
       status = Text ''overdue'', wear = Missing,
       accelerated_moveout = None, linked_to_occupancy = None\<rparr>]
     0
   = Inr ([(Dashed ''Lease Break Fee'' ''relist'', 0, ''Capped at one month rent'')],
          [(Plain ''relist'', 300, ''Over one month rent'')], 0)"
    by code_simp
  ultimately show ?thesis using run by blast
qed



end
